theory Spec2Isabelle
  imports Main
begin

section \<open>The abstract weather class of \<^verbatim>\<open>elib_wx\<close>\<close>

text \<open>
  The source is \<^verbatim>\<open>src/elib_wx/weather_abc.py\<close>: the class \<^verbatim>\<open>WeatherABC\<close>.
  It declares the fields of a weather report, the property \<^verbatim>\<open>station_icao\<close>
  (a getter and a setter with code), the two renderers \<^verbatim>\<open>as_str\<close> and
  \<^verbatim>\<open>as_speech\<close> (with code), and a list of abstract methods (a signature and a
  docstring each, no body).

  An instance is a record. A Python attribute that is only annotated in the class body
  does not exist on the instance until it is assigned, and the getter of
  \<^verbatim>\<open>station_icao\<close> depends on exactly that, so the two attributes the code of this file
  assigns, \<^verbatim>\<open>_station_icao\<close> and \<^verbatim>\<open>station_name\<close>, are options: \<open>None\<close> is
  "not assigned yet". A method is a function from the instance to an outcome and the
  instance afterwards; an exception is the outcome \<open>Inl e\<close>, and the instance that comes
  with it is the one the exception leaves behind (Python rolls nothing back).
  An abstract method, and a function of the vendored \<^verbatim>\<open>avwx\<close> package, is a parameter of
  the definitions that call it.
\<close>

subsection \<open>Data\<close>

text \<open>
  The value classes of \<^verbatim>\<open>elib_wx.values.value\<close> are not in the source file; each is
  represented by its magnitude. The structures of \<^verbatim>\<open>avwx\<close> that no definition below
  looks into (\<^verbatim>\<open>MetarData\<close>, \<^verbatim>\<open>Units\<close>, \<^verbatim>\<open>Timestamp\<close>) are type parameters.
\<close>

type_synonym Pressure = int
type_synonym Temperature = int
type_synonym Visibility = int
type_synonym WindDirection = int
type_synonym WindSpeed = int

text \<open>
  Modelled from the spec: \<^verbatim>\<open>avwx.structs.Cloud\<close> is not in the source file. The spec
  speaks of a cloud layer that lies below a threshold, so a layer has a kind and the
  altitude of its base.
\<close>

record Cloud =
  cloud_type :: string
  altitude :: int

record ('md, 'mu, 'ts) weather =
  source :: string
  source_type :: string
  station_icao_attr :: "string option"  \<comment> \<open>\<^verbatim>\<open>_station_icao\<close>\<close>
  station_name :: "string option"
  raw_metar_str :: string
  metar_data :: 'md
  metar_units :: 'mu
  altimeter :: Pressure
  cloud_layers :: "Cloud list"
  visibility :: Visibility
  temperature :: Temperature
  dew_point :: Temperature
  wind_speed :: WindSpeed
  wind_direction :: WindDirection
  wind_direction_is_variable :: bool
  wind_direction_range :: "WindDirection list"
  wind_gust :: WindSpeed
  date_time :: 'ts
  other :: "string list"
  remarks :: string

text \<open>\<^verbatim>\<open>Config\<close> is imported from the package; the class reads one setting of it.\<close>

record Config =
  dummy_icao_code :: string

subsection \<open>The property \<^verbatim>\<open>station_icao\<close>\<close>

text \<open>
  The exceptions: Python's \<^verbatim>\<open>AttributeError\<close>, which the getter catches, and the error
  kinds the spec names. The source names no exception class of its own.
\<close>

datatype error =
  AttributeError
| StationValidationError
| ReportParseError
| MissionReadError
| MissionWriteError
| RangeError

text \<open>
  \<^verbatim>\<open>self._station_icao\<close>: reading an attribute that was never assigned raises
  \<^verbatim>\<open>AttributeError\<close>.
\<close>

definition read_station_icao_attr :: "('md, 'mu, 'ts) weather \<Rightarrow> error + string" where
  "read_station_icao_attr self =
     (case station_icao_attr self of
        None \<Rightarrow> Inl AttributeError
      | Some v \<Rightarrow> Inr v)"

text \<open>
  The getter:
  \<^verbatim>\<open>
    try:
        return self._station_icao
    except AttributeError:
        return Config.dummy_icao_code
  \<close>
\<close>

definition station_icao :: "Config \<Rightarrow> ('md, 'mu, 'ts) weather \<Rightarrow> error + string" where
  "station_icao cfg self =
     (case read_station_icao_attr self of
        Inr v \<Rightarrow> Inr v
      | Inl e \<Rightarrow> (if e = AttributeError then Inr (dummy_icao_code cfg) else Inl e))"

text \<open>
  The setter:
  \<^verbatim>\<open>
    if value != Config.dummy_icao_code:
        avwx.core.valid_station(value)
    self._station_icao = value
    self._set_station_name()
  \<close>
  \<^verbatim>\<open>avwx.core.valid_station\<close> returns nothing and raises on a bad code: it is the
  parameter \<open>valid_station\<close>, \<open>Some e\<close> for "raises \<open>e\<close>". The abstract method
  \<^verbatim>\<open>_set_station_name\<close> is the parameter \<open>set_name_impl\<close>. The setter also
  returns the calls it made to the two, in order.
\<close>

datatype call = Valid_station string | Set_station_name

definition station_icao_set ::
  "Config \<Rightarrow> (string \<Rightarrow> 'e option) \<Rightarrow>
   (('md, 'mu, 'ts) weather \<Rightarrow> ('e + unit) \<times> ('md, 'mu, 'ts) weather) \<Rightarrow>
   string \<Rightarrow> ('md, 'mu, 'ts) weather \<Rightarrow>
   call list \<times> ('e + unit) \<times> ('md, 'mu, 'ts) weather" where
  "station_icao_set cfg valid_station set_name_impl value self =
     (if value \<noteq> dummy_icao_code cfg then
        (case valid_station value of
           Some e \<Rightarrow> ([Valid_station value], Inl e, self)
         | None \<Rightarrow>
             ([Valid_station value, Set_station_name],
              set_name_impl (self\<lparr>station_icao_attr := Some value\<rparr>)))
      else
        ([Set_station_name],
         set_name_impl (self\<lparr>station_icao_attr := Some value\<rparr>)))"

subsection \<open>The renderers\<close>

text \<open>
  \<^verbatim>\<open>as_str\<close> returns \<^verbatim>\<open>self._as_str(spoken=False)\<close> and \<^verbatim>\<open>as_speech\<close> returns
  \<^verbatim>\<open>self._as_str(spoken=True)\<close>. The abstract method \<^verbatim>\<open>_as_str\<close> is the parameter
  \<open>as_str_impl\<close>; like every method it may raise and may change the instance.
\<close>

definition as_str ::
  "(bool \<Rightarrow> ('md, 'mu, 'ts) weather \<Rightarrow> ('e + string) \<times> ('md, 'mu, 'ts) weather) \<Rightarrow>
   ('md, 'mu, 'ts) weather \<Rightarrow> ('e + string) \<times> ('md, 'mu, 'ts) weather" where
  "as_str as_str_impl self = as_str_impl False self"

definition as_speech ::
  "(bool \<Rightarrow> ('md, 'mu, 'ts) weather \<Rightarrow> ('e + string) \<times> ('md, 'mu, 'ts) weather) \<Rightarrow>
   ('md, 'mu, 'ts) weather \<Rightarrow> ('e + string) \<times> ('md, 'mu, 'ts) weather" where
  "as_speech as_str_impl self = as_str_impl True self"

subsection \<open>The station name\<close>

text \<open>
  Modelled from the spec: the body of \<^verbatim>\<open>_set_station_name\<close> is missing (the method is
  abstract in the source file). Its docstring and the spec say: it sets the name of the
  airport from the ICAO code, and when the code is not found in the database the name is
  "unknown station"; the lookup failure is never an exception. The database of
  \<^verbatim>\<open>avwx\<close> is the parameter \<open>station_names\<close>.
\<close>

definition set_station_name ::
  "Config \<Rightarrow> (string \<rightharpoonup> string) \<Rightarrow> ('md, 'mu, 'ts) weather \<Rightarrow>
   (error + unit) \<times> ('md, 'mu, 'ts) weather" where
  "set_station_name cfg station_names self =
     (case station_icao cfg self of
        Inl e \<Rightarrow> (Inl e, self)
      | Inr icao \<Rightarrow>
          (Inr (),
           self\<lparr>station_name :=
             Some (case station_names icao of
                     Some name \<Rightarrow> name
                   | None \<Rightarrow> ''unknown station'')\<rparr>))"

subsection \<open>CAVOK\<close>

text \<open>
  Modelled from the spec: the body of the property \<^verbatim>\<open>is_cavok\<close> is missing (abstract in
  the source file). The spec: true iff visibility is at or above a threshold, no cloud
  layer is below a threshold and no significant weather phenomenon is present (the list
  \<^verbatim>\<open>other\<close> is empty). The spec leaves the two thresholds open; they are parameters.
\<close>

definition is_cavok ::
  "Visibility \<Rightarrow> int \<Rightarrow> ('md, 'mu, 'ts) weather \<Rightarrow> bool" where
  "is_cavok visibility_threshold cloud_threshold self =
     (visibility_threshold \<le> visibility self \<and>
      filter (\<lambda>layer. altitude layer < cloud_threshold) (cloud_layers self) = [] \<and>
      other self = [])"

subsection \<open>Missions\<close>




subsection \<open>Sample values\<close>

text \<open>Concrete values, on which the theorems below are instantiated.\<close>

definition sample_config :: Config where
  "sample_config = \<lparr>dummy_icao_code = ''XXXX''\<rparr>"

definition sample_weather :: "(unit, unit, unit) weather" where
  "sample_weather =
     \<lparr>source = ''UGTB 211300Z 13014KT CAVOK 33/07 Q1016 NOSIG'',
      source_type = ''METAR'',
      station_icao_attr = None,
      station_name = None,
      raw_metar_str = ''UGTB 211300Z 13014KT CAVOK 33/07 Q1016 NOSIG'',
      metar_data = (),
      metar_units = (),
      altimeter = 1016,
      cloud_layers = [\<lparr>cloud_type = ''FEW'', altitude = 6000\<rparr>],
      visibility = 9999,
      temperature = 33,
      dew_point = 7,
      wind_speed = 14,
      wind_direction = 130,
      wind_direction_is_variable = False,
      wind_direction_range = [],
      wind_gust = 0,
      date_time = (),
      other = [],
      remarks = ''NOSIG''\<rparr>"

text \<open>The same report once its station has been set.\<close>

definition sample_weather_named :: "(unit, unit, unit) weather" where
  "sample_weather_named =
     sample_weather\<lparr>station_icao_attr := Some ''UGTB'',
       station_name := Some ''Tbilisi Lochini''\<rparr>"

text \<open>A validator that accepts the codes of four characters.\<close>

definition sample_valid_station :: "string \<Rightarrow> error option" where
  "sample_valid_station value =
     (if length value = 4 then None else Some StationValidationError)"

text \<open>An implementation of \<^verbatim>\<open>_set_station_name\<close> that names a station by its code.\<close>

definition sample_set_station_name ::
  "(unit, unit, unit) weather \<Rightarrow> (error + unit) \<times> (unit, unit, unit) weather" where
  "sample_set_station_name self = (Inr (), self\<lparr>station_name := station_icao_attr self\<rparr>)"

definition sample_station_names :: "string \<rightharpoonup> string" where
  "sample_station_names = [''UGTB'' \<mapsto> ''Tbilisi Lochini'']"



text \<open>The sample report with a low cloud layer, and with a thunderstorm.\<close>

definition sample_weather_low_cloud :: "(unit, unit, unit) weather" where
  "sample_weather_low_cloud =
     sample_weather\<lparr>cloud_layers :=
       [\<lparr>cloud_type = ''BKN'', altitude = 3000\<rparr>, \<lparr>cloud_type = ''FEW'', altitude = 6000\<rparr>]\<rparr>"

definition sample_weather_storm :: "(unit, unit, unit) weather" where
  "sample_weather_storm = sample_weather\<lparr>other := [''TSRA'']\<rparr>"

section \<open>Properties\<close>

subsection \<open>The two renderers\<close>

text \<open>
  C8. For every instance and every implementation of \<^verbatim>\<open>_as_str\<close>, \<^verbatim>\<open>as_str()\<close> is
  exactly \<^verbatim>\<open>_as_str(spoken=False)\<close> and \<^verbatim>\<open>as_speech()\<close> is exactly
  \<^verbatim>\<open>_as_str(spoken=True)\<close>: the same outcome (the string, or the exception) and the same
  instance afterwards. The two public renderers differ in the flag only.
\<close>

theorem renderers_delegate:
  "as_str as_str_impl self = as_str_impl False self \<and>
   as_speech as_str_impl self = as_str_impl True self"
  by (simp add: as_str_def as_speech_def)

subsection \<open>Reading the station code\<close>

lemma read_unset: "station_icao_attr self = None \<Longrightarrow> read_station_icao_attr self = Inl AttributeError"
  by (simp add: read_station_icao_attr_def)

lemma station_icao_total: "\<exists>code. station_icao cfg self = Inr code"
  by (cases "station_icao_attr self") (simp_all add: station_icao_def read_station_icao_attr_def)

text \<open>
  C2. On an instance whose \<^verbatim>\<open>_station_icao\<close> was never assigned, reading
  \<^verbatim>\<open>station_icao\<close> raises nothing (the result is a value, \<open>Inr\<close>) and the value is
  exactly \<^verbatim>\<open>Config.dummy_icao_code\<close>.
\<close>

theorem station_icao_unset:
  assumes "station_icao_attr self = None"
  shows "station_icao cfg self = Inr (dummy_icao_code cfg)"
  using read_unset [OF assms] by (simp add: station_icao_def)

theorem station_icao_unset_witness:
  "station_icao_attr sample_weather = None \<and>
   station_icao sample_config sample_weather = Inr ''XXXX''"
proof -
  have unset: "station_icao_attr sample_weather = None"
    by (simp add: sample_weather_def)
  from station_icao_unset [OF unset, of sample_config] unset
  show ?thesis by (simp add: sample_config_def)
qed

subsection \<open>Assigning the station code\<close>

text \<open>
  C3. Assigning a value other than the placeholder calls the validation first (it is the
  first call the setter makes), and when the validation raises, the setter raises that
  same error at once: validation is the only call made and the value is not stored.
  Assigning the placeholder never calls the validation: no validation call is made and
  the result is the same under any other validator.
\<close>

theorem station_icao_set_validates_first:
  assumes "station_icao_set cfg valid_station set_name_impl value self = (calls, outcome, self')"
  shows "(value \<noteq> dummy_icao_code cfg \<longrightarrow>
            (\<exists>rest. calls = Valid_station value # rest) \<and>
            (\<forall>e. valid_station value = Some e \<longrightarrow>
               outcome = Inl e \<and> calls = [Valid_station value] \<and>
               station_icao_attr self' = station_icao_attr self)) \<and>
         (value = dummy_icao_code cfg \<longrightarrow>
            (\<forall>v. Valid_station v \<notin> set calls) \<and>
            station_icao_set cfg other_validator set_name_impl value self = (calls, outcome, self'))"
proof (cases "value = dummy_icao_code cfg")
  case True
  with assms show ?thesis
    by (auto simp: station_icao_set_def)
next
  case False
  show ?thesis
  proof (cases "valid_station value")
    case None
    with False assms show ?thesis
      by (auto simp: station_icao_set_def)
  next
    case (Some e)
    with False assms show ?thesis
      by (auto simp: station_icao_set_def)
  qed
qed

theorem station_icao_set_validates_first_witness:
  "''ZZ'' \<noteq> dummy_icao_code sample_config \<and>
   sample_valid_station ''ZZ'' = Some StationValidationError \<and>
   station_icao_set sample_config sample_valid_station
     sample_set_station_name ''ZZ'' sample_weather =
     ([Valid_station ''ZZ''], Inl StationValidationError, sample_weather) \<and>
   ''XXXX'' = dummy_icao_code sample_config \<and>
   fst (station_icao_set sample_config (\<lambda>v. Some StationValidationError)
     sample_set_station_name ''XXXX'' sample_weather) =
     [Set_station_name] \<and>
   station_icao_set sample_config (\<lambda>v. Some StationValidationError)
     sample_set_station_name ''XXXX'' sample_weather =
   station_icao_set sample_config sample_valid_station
     sample_set_station_name ''XXXX'' sample_weather"
proof -
  let ?name = sample_set_station_name
  have bad: "''ZZ'' \<noteq> dummy_icao_code sample_config"
    by (simp add: sample_config_def)
  have rejected: "sample_valid_station ''ZZ'' = Some StationValidationError"
    by (simp add: sample_valid_station_def)
  obtain calls outcome self' where run:
    "station_icao_set sample_config sample_valid_station ?name ''ZZ'' sample_weather =
       (calls, outcome, self')"
    by (cases "station_icao_set sample_config sample_valid_station ?name ''ZZ'' sample_weather")
  from station_icao_set_validates_first [OF run] bad rejected
  have "outcome = Inl StationValidationError" and "calls = [Valid_station ''ZZ'']"
    by simp_all
  moreover have "self' = sample_weather"
    using run bad rejected by (simp add: station_icao_set_def)
  ultimately have first:
    "station_icao_set sample_config sample_valid_station ?name ''ZZ'' sample_weather =
       ([Valid_station ''ZZ''], Inl StationValidationError, sample_weather)"
    using run by simp
  have dummy: "''XXXX'' = dummy_icao_code sample_config"
    by (simp add: sample_config_def)
  obtain calls2 outcome2 self2 where run2:
    "station_icao_set sample_config (\<lambda>v. Some StationValidationError) ?name ''XXXX''
       sample_weather = (calls2, outcome2, self2)"
    by (cases "station_icao_set sample_config (\<lambda>v. Some StationValidationError) ?name ''XXXX''
       sample_weather")
  from station_icao_set_validates_first [OF run2, of sample_valid_station] dummy
  have same: "station_icao_set sample_config sample_valid_station ?name ''XXXX'' sample_weather =
      (calls2, outcome2, self2)"
    by simp
  have "calls2 = [Set_station_name]"
    using run2 dummy by (simp add: station_icao_set_def)
  with bad rejected first dummy run2 same show ?thesis
    by simp
qed

text \<open>
  C10. When the validation of a value other than the placeholder raises, the setter
  raises that error and the instance is the one it was: \<^verbatim>\<open>_station_icao\<close> keeps its
  previous value (or stays unset), \<^verbatim>\<open>station_name\<close> is what it was, and
  \<^verbatim>\<open>_set_station_name\<close> was not called.
\<close>

theorem station_icao_set_atomic:
  assumes "value \<noteq> dummy_icao_code cfg"
    and "valid_station value = Some e"
    and "station_icao_set cfg valid_station set_name_impl value self = (calls, outcome, self')"
  shows "outcome = Inl e \<and> self' = self \<and>
         station_icao_attr self' = station_icao_attr self \<and>
         station_name self' = station_name self \<and>
         station_icao cfg self' = station_icao cfg self \<and>
         Set_station_name \<notin> set calls"
  using assms by (auto simp: station_icao_set_def)

theorem station_icao_set_atomic_witness:
  "''KJFKX'' \<noteq> dummy_icao_code sample_config \<and>
   sample_valid_station ''KJFKX'' = Some StationValidationError \<and>
   station_icao_set sample_config sample_valid_station
     sample_set_station_name ''KJFKX'' sample_weather_named =
     ([Valid_station ''KJFKX''], Inl StationValidationError, sample_weather_named) \<and>
   station_icao_attr sample_weather_named = Some ''UGTB'' \<and>
   station_name sample_weather_named = Some ''Tbilisi Lochini''"
proof -
  let ?name = sample_set_station_name
  have bad: "''KJFKX'' \<noteq> dummy_icao_code sample_config"
    by (simp add: sample_config_def)
  have rejected: "sample_valid_station ''KJFKX'' = Some StationValidationError"
    by (simp add: sample_valid_station_def)
  obtain calls outcome self' where run:
    "station_icao_set sample_config sample_valid_station ?name ''KJFKX'' sample_weather_named =
       (calls, outcome, self')"
    by (cases "station_icao_set sample_config sample_valid_station ?name ''KJFKX'' sample_weather_named")
  from station_icao_set_atomic [OF bad rejected run]
  have "outcome = Inl StationValidationError" and "self' = sample_weather_named"
    by simp_all
  moreover have "calls = [Valid_station ''KJFKX'']"
    using run bad rejected by (simp add: station_icao_set_def)
  moreover have "station_icao_attr sample_weather_named = Some ''UGTB''"
    and "station_name sample_weather_named = Some ''Tbilisi Lochini''"
    by (simp_all add: sample_weather_named_def)
  ultimately show ?thesis
    using run bad rejected by simp
qed

subsection \<open>The station name follows the station code\<close>

lemma set_station_name_returns:
  "set_station_name cfg station_names self =
     (Inr (),
      self\<lparr>station_name :=
        Some (case station_names (case station_icao_attr self of Some v \<Rightarrow> v | None \<Rightarrow> dummy_icao_code cfg) of
                Some name \<Rightarrow> name
              | None \<Rightarrow> ''unknown station'')\<rparr>)"
  by (cases "station_icao_attr self")
     (simp_all add: set_station_name_def station_icao_def read_station_icao_attr_def)

text \<open>
  C4. Every successful assignment to \<^verbatim>\<open>station_icao\<close> recomputes the station name: for
  any implementation of \<^verbatim>\<open>_set_station_name\<close>, a setter that returns has, as its last
  call, run \<^verbatim>\<open>_set_station_name\<close> on the instance holding the new code, and the
  instance it leaves is the one that call left. With \<^verbatim>\<open>_set_station_name\<close> as the spec
  describes it, the setter raises only when the validation does, and after a successful
  assignment the name is the one the database has for the new code, or
  "unknown station" when the database has none: a failed lookup is not an exception.
\<close>

theorem station_icao_set_syncs_name:
  "(station_icao_set cfg validator set_name_impl value self = (calls, Inr u, self') \<longrightarrow>
      set_name_impl (self\<lparr>station_icao_attr := Some value\<rparr>) = (Inr u, self') \<and>
      last calls = Set_station_name) \<and>
   (station_icao_set cfg valid_station (set_station_name cfg station_names) value self
      = (calls2, outcome, named) \<longrightarrow>
      (outcome = Inr () \<longleftrightarrow> value = dummy_icao_code cfg \<or> valid_station value = None) \<and>
      (outcome = Inr () \<longrightarrow>
         station_icao_attr named = Some value \<and>
         station_name named =
           Some (case station_names value of
                   Some name \<Rightarrow> name
                 | None \<Rightarrow> ''unknown station'')))"
proof (intro conjI impI)
  assume run: "station_icao_set cfg validator set_name_impl value self = (calls, Inr u, self')"
  then show "set_name_impl (self\<lparr>station_icao_attr := Some value\<rparr>) = (Inr u, self')"
    by (auto simp: station_icao_set_def split: if_splits option.splits)
  from run show "last calls = Set_station_name"
    by (auto simp: station_icao_set_def split: if_splits option.splits)
next
  assume run: "station_icao_set cfg valid_station (set_station_name cfg station_names) value self
      = (calls2, outcome, named)"
  then show "outcome = Inr () \<longleftrightarrow> value = dummy_icao_code cfg \<or> valid_station value = None"
    by (auto simp: station_icao_set_def set_station_name_returns split: if_splits option.splits)
  assume "outcome = Inr ()"
  with run show "station_icao_attr named = Some value"
    by (auto simp: station_icao_set_def set_station_name_returns split: if_splits option.splits)
  from run \<open>outcome = Inr ()\<close>
  show "station_name named =
           Some (case station_names value of
                   Some name \<Rightarrow> name
                 | None \<Rightarrow> ''unknown station'')"
    by (auto simp: station_icao_set_def set_station_name_returns split: if_splits option.splits)
qed

theorem station_icao_set_syncs_name_witness:
  "station_icao_set sample_config sample_valid_station
     (set_station_name sample_config sample_station_names) ''UGTB'' sample_weather =
     ([Valid_station ''UGTB'', Set_station_name], Inr (), sample_weather_named) \<and>
   sample_station_names ''KJFK'' = None \<and>
   (\<exists>named. station_icao_set sample_config sample_valid_station
     (set_station_name sample_config sample_station_names) ''KJFK'' sample_weather_named =
     ([Valid_station ''KJFK'', Set_station_name], Inr (), named) \<and>
     station_icao_attr named = Some ''KJFK'' \<and> station_name named = Some ''unknown station'')"
proof -
  let ?name = "set_station_name sample_config sample_station_names"
  let ?set = "station_icao_set sample_config sample_valid_station ?name"
  have ok: "sample_valid_station ''UGTB'' = None" "sample_valid_station ''KJFK'' = None"
    by (simp_all add: sample_valid_station_def)
  have db: "sample_station_names ''UGTB'' = Some ''Tbilisi Lochini''"
    "sample_station_names ''KJFK'' = None"
    by (simp_all add: sample_station_names_def)
  have calls: "fst (?set ''UGTB'' sample_weather) = [Valid_station ''UGTB'', Set_station_name]"
    "fst (?set ''KJFK'' sample_weather_named) = [Valid_station ''KJFK'', Set_station_name]"
    using ok by (simp_all add: station_icao_set_def sample_config_def)
  obtain c1 o1 w1 where run1: "?set ''UGTB'' sample_weather = (c1, o1, w1)"
    by (cases "?set ''UGTB'' sample_weather")
  obtain c2 o2 w2 where run2: "?set ''KJFK'' sample_weather_named = (c2, o2, w2)"
    by (cases "?set ''KJFK'' sample_weather_named")
  note sync1 = station_icao_set_syncs_name
    [of sample_config sample_valid_station ?name "''UGTB''" sample_weather c1 "()" w1
        sample_valid_station sample_station_names c1 o1 w1]
  note sync2 = station_icao_set_syncs_name
    [of sample_config sample_valid_station ?name "''KJFK''" sample_weather_named c2 "()" w2
        sample_valid_station sample_station_names c2 o2 w2]
  from sync1 run1 ok have o1: "o1 = Inr ()" by simp
  from sync2 run2 ok have o2: "o2 = Inr ()" by simp
  from sync1 run1 o1 db have w1: "set_station_name sample_config sample_station_names
      (sample_weather\<lparr>station_icao_attr := Some ''UGTB''\<rparr>) = (Inr (), w1)"
    by simp
  have "w1 = sample_weather_named"
    using w1 db by (simp add: set_station_name_returns sample_weather_named_def sample_weather_def sample_config_def)
  moreover from sync2 run2 o2 db
  have "station_icao_attr w2 = Some ''KJFK''" "station_name w2 = Some ''unknown station''"
    by simp_all
  ultimately show ?thesis
    using run1 run2 o1 o2 calls db by simp
qed

subsection \<open>CAVOK\<close>

text \<open>
  C1. \<^verbatim>\<open>is_cavok\<close> is true if and only if the visibility is at or above the visibility
  threshold, no cloud layer lies below the cloud threshold, and the list \<^verbatim>\<open>other\<close> of
  significant weather phenomena is empty.
\<close>

theorem is_cavok_iff:
  "is_cavok visibility_threshold cloud_threshold self \<longleftrightarrow>
     visibility_threshold \<le> visibility self \<and>
     (\<forall>layer \<in> set (cloud_layers self). \<not> altitude layer < cloud_threshold) \<and>
     other self = []"
  by (simp add: is_cavok_def filter_empty_conv)

theorem is_cavok_iff_witness:
  "is_cavok 9999 5000 sample_weather \<and>
   \<not> is_cavok 10000 5000 sample_weather \<and>
   \<not> is_cavok 9999 5000 sample_weather_low_cloud \<and>
   \<not> is_cavok 9999 5000 sample_weather_storm"
proof -
  have "is_cavok 9999 5000 sample_weather"
    using is_cavok_iff [of 9999 5000 sample_weather]
    by (simp add: sample_weather_def)
  moreover have "\<not> is_cavok 10000 5000 sample_weather"
    using is_cavok_iff [of 10000 5000 sample_weather]
    by (simp add: sample_weather_def)
  moreover have "\<not> is_cavok 9999 5000 sample_weather_low_cloud"
    using is_cavok_iff [of 9999 5000 sample_weather_low_cloud]
    by (simp add: sample_weather_low_cloud_def sample_weather_def)
  moreover have "\<not> is_cavok 9999 5000 sample_weather_storm"
    using is_cavok_iff [of 9999 5000 sample_weather_storm]
    by (simp add: sample_weather_storm_def sample_weather_def)
  ultimately show ?thesis by simp
qed

subsection \<open>Applying the weather to a mission\<close>



end
